theory Spec2Isabelle
  imports Main "HOL-Library.Word"
begin

section \<open>Go strings and the library calls of the order constructor\<close>

text \<open>
  A Go string is a sequence of bytes; \<open>string\<close> (a list of 8-bit \<open>char\<close>) is exactly
  that. The three parsers of the order file call \<open>strings.TrimSpace\<close> and
  \<open>strings.ToLower\<close>, which read the bytes as UTF-8, so the model below follows the
  standard library: package \<open>unicode/utf8\<close> (decoding from the front and from the back,
  encoding), \<open>unicode.IsSpace\<close>, \<open>unicode.ToLower\<close> and package \<open>strings\<close>.
  A rune is a code point; the decoder only yields natural numbers, and
  \<open>unicode.ToLower\<close> returns no negative rune, so runes are \<open>nat\<close>.
\<close>

type_synonym rune = nat

definition byte :: "char \<Rightarrow> nat" where
  "byte c = of_char c"

definition RuneError :: rune where
  "RuneError = 0xFFFD"

definition RuneSelf :: nat where
  "RuneSelf = 0x80"

definition MaxRune :: rune where
  "MaxRune = 0x10FFFF"

definition UTFMax :: nat where
  "UTFMax = 4"

text \<open>
  \<open>utf8.DecodeRuneInString\<close>: the rune at the front of the string and its width in
  bytes; \<open>(RuneError, 0)\<close> for the empty string and \<open>(RuneError, 1)\<close> for a byte that
  starts no well-formed encoding. The tables \<open>first\<close> and \<open>acceptRanges\<close> of the
  library are written out as comparisons: lead bytes C2..DF open a sequence of two bytes,
  E0..EF of three, F0..F4 of four, and the second byte is confined to A0..BF after E0,
  80..9F after ED, 90..BF after F0 and 80..8F after F4. The masks and shifts of the
  library are written as \<open>mod\<close> and multiplication.
\<close>

definition utf8_DecodeRuneInString :: "string \<Rightarrow> rune \<times> nat" where
  "utf8_DecodeRuneInString s =
     (let n = length s in
      if n < 1 then (RuneError, 0)
      else
        let s0 = byte (s ! 0) in
        if s0 < RuneSelf then (s0, 1)
        else if s0 < 0xC2 \<or> 0xF4 < s0 then (RuneError, 1)
        else
          let sz = (if s0 < 0xE0 then 2 else if s0 < 0xF0 then 3 else 4 :: nat);
              lo = (if s0 = 0xE0 then 0xA0 else if s0 = 0xF0 then 0x90 else 0x80 :: nat);
              hi = (if s0 = 0xED then 0x9F else if s0 = 0xF4 then 0x8F else 0xBF :: nat)
          in
          if n < sz then (RuneError, 1)
          else
            let s1 = byte (s ! 1) in
            if s1 < lo \<or> hi < s1 then (RuneError, 1)
            else if sz \<le> 2 then ((s0 mod 32) * 64 + s1 mod 64, 2)
            else
              let s2 = byte (s ! 2) in
              if s2 < 0x80 \<or> 0xBF < s2 then (RuneError, 1)
              else if sz \<le> 3 then ((s0 mod 16) * 4096 + (s1 mod 64) * 64 + s2 mod 64, 3)
              else
                let s3 = byte (s ! 3) in
                if s3 < 0x80 \<or> 0xBF < s3 then (RuneError, 1)
                else ((s0 mod 8) * 262144 + (s1 mod 64) * 4096 + (s2 mod 64) * 64
                        + s3 mod 64, 4))"

text \<open>\<open>utf8.RuneStart\<close>: the byte is not a continuation byte (10xxxxxx).\<close>

definition utf8_RuneStart :: "char \<Rightarrow> bool" where
  "utf8_RuneStart b = (byte b div 64 \<noteq> 2)"

text \<open>
  The loop of \<open>utf8.DecodeLastRuneInString\<close> that walks back from the last byte to a
  byte that can start a rune, no further than \<open>lim\<close>.
\<close>

function lastRuneStart :: "string \<Rightarrow> int \<Rightarrow> int \<Rightarrow> int" where
  "lastRuneStart s start lim =
     (if start \<ge> lim \<and> start \<ge> 0 then
        (if utf8_RuneStart (s ! nat start) then start else lastRuneStart s (start - 1) lim)
      else start)"
  by pat_completeness auto
termination
  by (relation "measure (\<lambda>(s, start, lim). nat (start + 1))") auto

declare lastRuneStart.simps [simp del]

text \<open>
  \<open>utf8.DecodeLastRuneInString\<close>: the rune at the end of the string and its width;
  \<open>(RuneError, 1)\<close> when the last byte ends no well-formed encoding.
\<close>

definition utf8_DecodeLastRuneInString :: "string \<Rightarrow> rune \<times> nat" where
  "utf8_DecodeLastRuneInString s =
     (let end = int (length s) in
      if end = 0 then (RuneError, 0)
      else
        let r = byte (s ! nat (end - 1)) in
        if r < RuneSelf then (r, 1)
        else
          let lim = (if end - int UTFMax < 0 then 0 else end - int UTFMax);
              start0 = lastRuneStart s (end - 2) lim;
              start = (if start0 < 0 then 0 else start0);
              (r, n) = utf8_DecodeRuneInString (drop (nat start) s)
          in if start + int n \<noteq> end then (RuneError, 1) else (r, n))"

text \<open>
  \<open>utf8.AppendRune\<close>: the UTF-8 encoding of a rune; a surrogate half or a value above
  \<open>MaxRune\<close> is encoded as \<open>RuneError\<close>.
\<close>

definition encode3 :: "rune \<Rightarrow> string" where
  "encode3 r = [char_of (0xE0 + r div 4096), char_of (0x80 + r div 64 mod 64),
                char_of (0x80 + r mod 64)]"

definition utf8_AppendRune :: "rune \<Rightarrow> string" where
  "utf8_AppendRune r =
     (if r \<le> 0x7F then [char_of r]
      else if r \<le> 0x7FF then [char_of (0xC0 + r div 64), char_of (0x80 + r mod 64)]
      else if r > MaxRune \<or> (0xD800 \<le> r \<and> r \<le> 0xDFFF) then encode3 RuneError
      else if r \<le> 0xFFFF then encode3 r
      else [char_of (0xF0 + r div 262144), char_of (0x80 + r div 4096 mod 64),
            char_of (0x80 + r div 64 mod 64), char_of (0x80 + r mod 64)])"

text \<open>
  \<open>unicode.IsSpace\<close>: in Latin-1 the eight runes of the library's switch, above it the
  ranges of the Unicode property White_Space.
\<close>

definition unicode_IsSpace :: "rune \<Rightarrow> bool" where
  "unicode_IsSpace r =
     (if r \<le> 0xFF then
        r = 0x09 \<or> r = 0x0A \<or> r = 0x0B \<or> r = 0x0C \<or> r = 0x0D \<or> r = 0x20
        \<or> r = 0x85 \<or> r = 0xA0
      else
        r = 0x1680 \<or> (0x2000 \<le> r \<and> r \<le> 0x200A) \<or> r = 0x2028 \<or> r = 0x2029
        \<or> r = 0x202F \<or> r = 0x205F \<or> r = 0x3000)"

text \<open>
  \<open>unicode.ToLower\<close>: the library maps an ASCII rune itself and looks every other rune
  up in \<open>unicode.CaseRanges\<close>. That table belongs to the Unicode version of the Go
  release the program is built with, so it is the parameter \<open>tbl\<close> here: \<open>tbl r\<close> is
  the lower case of the rune \<open>r\<close> above ASCII.
\<close>

definition unicode_ToLower :: "(rune \<Rightarrow> rune) \<Rightarrow> rune \<Rightarrow> rune" where
  "unicode_ToLower tbl r =
     (if r \<le> 0x7F then (if 0x41 \<le> r \<and> r \<le> 0x5A then r + 0x20 else r)
      else tbl r)"

lemma DecodeRune_width:
  "s \<noteq> [] \<Longrightarrow> utf8_DecodeRuneInString s = (r, w) \<Longrightarrow> 0 < w \<and> w \<le> length s"
  by (auto simp: utf8_DecodeRuneInString_def Let_def Suc_le_eq split: if_splits)

lemma lastRuneStart_le: "lastRuneStart s start lim \<le> start"
  by (induction s start lim rule: lastRuneStart.induct) (subst lastRuneStart.simps, auto)

lemma DecodeLastRune_width:
  assumes "s \<noteq> []" and "utf8_DecodeLastRuneInString s = (r, w)"
  shows "0 < w \<and> w \<le> length s"
proof -
  from assms(1) have len: "0 < length s" by simp
  define lim where
    "lim = (if int (length s) - int UTFMax < 0 then 0 else int (length s) - int UTFMax)"
  define start0 where "start0 = lastRuneStart s (int (length s) - 2) lim"
  define start where "start = (if start0 < 0 then 0 else start0)"
  obtain r' n where d: "utf8_DecodeRuneInString (drop (nat start) s) = (r', n)"
    by (cases "utf8_DecodeRuneInString (drop (nat start) s)")
  have "w = 1 \<or> (w = n \<and> start + int n = int (length s))"
    using assms(2) len d
    unfolding utf8_DecodeLastRuneInString_def Let_def lim_def[symmetric]
      start0_def[symmetric] start_def[symmetric]
    by (auto split: if_splits)
  moreover have "0 \<le> start" by (simp add: start_def)
  moreover have "start < int (length s)"
    using lastRuneStart_le [of s "int (length s) - 2" lim] len
    by (simp add: start_def start0_def)
  ultimately show ?thesis using len by auto
qed

lemma DecodeRune_shorter:
  "s \<noteq> [] \<Longrightarrow> (r, w) = utf8_DecodeRuneInString s \<Longrightarrow> length s - w < length s"
  using DecodeRune_width [of s r w] by simp

lemma DecodeLastRune_shorter:
  "s \<noteq> [] \<Longrightarrow> (r, w) = utf8_DecodeLastRuneInString s \<Longrightarrow> length s - w < length s"
  using DecodeLastRune_width [of s r w] by simp

text \<open>
  \<open>strings.TrimLeftFunc\<close> and \<open>strings.TrimRightFunc\<close>: the loops of \<open>indexFunc\<close>
  and \<open>lastIndexFunc\<close> step over one decoded rune at a time, from the front with
  \<open>DecodeRuneInString\<close> and from the back with \<open>DecodeLastRuneInString\<close>, while the
  predicate holds; the result is the string from the first rune kept, or up to the end of
  the last rune kept. \<open>strings.TrimFunc\<close> trims the left, then the right.
\<close>

function strings_TrimLeftFunc :: "string \<Rightarrow> (rune \<Rightarrow> bool) \<Rightarrow> string" where
  "strings_TrimLeftFunc s f =
     (if s = [] then []
      else case utf8_DecodeRuneInString s of
        (r, w) \<Rightarrow> if f r then strings_TrimLeftFunc (drop w s) f else s)"
  by pat_completeness auto
termination
  by (relation "measure (\<lambda>(s, f). length s)") (auto simp: DecodeRune_shorter)

declare strings_TrimLeftFunc.simps [simp del]

function strings_TrimRightFunc :: "string \<Rightarrow> (rune \<Rightarrow> bool) \<Rightarrow> string" where
  "strings_TrimRightFunc s f =
     (if s = [] then []
      else case utf8_DecodeLastRuneInString s of
        (r, n) \<Rightarrow> if f r then strings_TrimRightFunc (take (length s - n) s) f else s)"
  by pat_completeness auto
termination
  by (relation "measure (\<lambda>(s, f). length s)") (auto simp: DecodeLastRune_shorter)

declare strings_TrimRightFunc.simps [simp del]

definition strings_TrimFunc :: "string \<Rightarrow> (rune \<Rightarrow> bool) \<Rightarrow> string" where
  "strings_TrimFunc s f = strings_TrimRightFunc (strings_TrimLeftFunc s f) f"

text \<open>
  \<open>strings.TrimSpace\<close>. The library first skips ASCII white space byte by byte (the
  table \<open>asciiSpace\<close>) from the left, then from the right, and hands the rest to
  \<open>TrimFunc\<close> or \<open>TrimRightFunc\<close> with \<open>unicode.IsSpace\<close> at the first byte that is not
  ASCII.
\<close>

definition asciiSpace :: "char \<Rightarrow> bool" where
  "asciiSpace c = (byte c = 0x09 \<or> byte c = 0x0A \<or> byte c = 0x0B \<or> byte c = 0x0C
                   \<or> byte c = 0x0D \<or> byte c = 0x20)"

text \<open>The second loop of \<open>TrimSpace\<close>, on the reversed string (last byte first).\<close>

fun trimSpaceStop :: "string \<Rightarrow> string" where
  "trimSpaceStop [] = []"
| "trimSpaceStop (c # cs) =
     (if byte c \<ge> RuneSelf then rev (strings_TrimRightFunc (rev (c # cs)) unicode_IsSpace)
      else if asciiSpace c then trimSpaceStop cs
      else c # cs)"

fun strings_TrimSpace :: "string \<Rightarrow> string" where
  "strings_TrimSpace [] = []"
| "strings_TrimSpace (c # cs) =
     (if byte c \<ge> RuneSelf then strings_TrimFunc (c # cs) unicode_IsSpace
      else if asciiSpace c then strings_TrimSpace cs
      else rev (trimSpaceStop (rev (c # cs))))"

text \<open>
  \<open>strings.Map\<close>. The first loop leaves the bytes of the string as they are up to the
  first rune that the mapping changes or that is an ill-formed byte; from there on the
  second loop (\<open>mapRest\<close>) writes the encoding of every mapped rune.
\<close>

function mapRest :: "(rune \<Rightarrow> rune) \<Rightarrow> string \<Rightarrow> string" where
  "mapRest mapping s =
     (if s = [] then []
      else case utf8_DecodeRuneInString s of
        (c, w) \<Rightarrow> utf8_AppendRune (mapping c) @ mapRest mapping (drop w s))"
  by pat_completeness auto
termination
  by (relation "measure (\<lambda>(f, s). length s)") (auto simp: DecodeRune_shorter)

declare mapRest.simps [simp del]

function strings_Map :: "(rune \<Rightarrow> rune) \<Rightarrow> string \<Rightarrow> string" where
  "strings_Map mapping s =
     (if s = [] then []
      else case utf8_DecodeRuneInString s of
        (c, w) \<Rightarrow>
          let r = mapping c in
          if r = c \<and> c \<noteq> RuneError then take w s @ strings_Map mapping (drop w s)
          else if c = RuneError \<and> w \<noteq> 1 \<and> r = c then take w s @ strings_Map mapping (drop w s)
          else utf8_AppendRune r @ mapRest mapping (drop w s))"
  by pat_completeness auto
termination
  by (relation "measure (\<lambda>(f, s). length s)") (auto simp: DecodeRune_shorter)

declare strings_Map.simps [simp del]

text \<open>
  \<open>strings.ToLower\<close>: a string of ASCII bytes is returned as it is when it has no upper
  case letter and with \<open>'a' - 'A'\<close> added to each upper case letter otherwise; any other
  string goes through \<open>Map\<close> with \<open>unicode.ToLower\<close>.
\<close>

definition lowerByte :: "char \<Rightarrow> char" where
  "lowerByte c = (if 0x41 \<le> byte c \<and> byte c \<le> 0x5A then char_of (byte c + 0x20) else c)"

definition strings_ToLower :: "(rune \<Rightarrow> rune) \<Rightarrow> string \<Rightarrow> string" where
  "strings_ToLower tbl s =
     (let isASCII = list_all (\<lambda>c. byte c < RuneSelf) s;
          hasUpper = list_ex (\<lambda>c. 0x41 \<le> byte c \<and> byte c \<le> 0x5A) s
      in if isASCII then (if \<not> hasUpper then s else map lowerByte s)
         else strings_Map (unicode_ToLower tbl) s)"

section \<open>The order and its constructor\<close>

text \<open>
  The three enumerations are Go integer types whose constants are numbered by \<open>iota\<close>.
\<close>

type_synonym OrderSide = int
type_synonym OrderType = int
type_synonym OrderStatus = int

definition BUY :: OrderSide where "BUY = 0"
definition SELL :: OrderSide where "SELL = 1"

definition MARKET :: OrderType where "MARKET = 0"
definition LIMIT :: OrderType where "LIMIT = 1"

definition PENDING :: OrderStatus where "PENDING = 0"
definition PARTIALLY_FILLED :: OrderStatus where "PARTIALLY_FILLED = 1"
definition FILLED :: OrderStatus where "FILLED = 2"
definition CANCELLED :: OrderStatus where "CANCELLED = 3"
definition REJECTED :: OrderStatus where "REJECTED = 4"

type_synonym UUID = "128 word"
type_synonym Time = int

record Order =
  OrderID :: UUID
  Symbol :: string
  Side :: OrderSide
  Type :: OrderType
  Quantity :: "64 word"
  RemainingQuantity :: "64 word"
  Price :: "64 word"
  Status :: OrderStatus
  CreateAt :: Time
  UpdatedAt :: Time

text \<open>
  A Go error value: its message, and the error it wraps when it was made by
  \<open>fmt.Errorf\<close> with the verb \<open>%w\<close>.
\<close>

datatype error = Error string "error option"

fun Error_msg :: "error \<Rightarrow> string" where
  "Error_msg (Error m w) = m"

text \<open>\<open>fmt.Errorf(prefix + "%s", s)\<close>, \<open>errors.New\<close> and \<open>fmt.Errorf(prefix + "%w", err)\<close>.\<close>

definition Errorf_s :: "string \<Rightarrow> string \<Rightarrow> error" where
  "Errorf_s prefix s = Error (prefix @ s) None"

definition errors_New :: "string \<Rightarrow> error" where
  "errors_New m = Error m None"

definition Errorf_w :: "string \<Rightarrow> error \<Rightarrow> error" where
  "Errorf_w prefix err = Error (prefix @ Error_msg err) (Some err)"

text \<open>
  The parsers return a Go pair: the value and the error, \<open>None\<close> for \<open>nil\<close>. A string
  that matches no case of the switch gives the value 0 and an error that quotes the
  string as it was passed.
\<close>

definition parseStatus :: "(rune \<Rightarrow> rune) \<Rightarrow> string \<Rightarrow> OrderStatus \<times> error option" where
  "parseStatus tbl s =
     (let k = strings_ToLower tbl (strings_TrimSpace s) in
      if k = ''pending'' then (PENDING, None)
      else if k = ''partially_filled'' then (PARTIALLY_FILLED, None)
      else if k = ''filled'' then (FILLED, None)
      else if k = ''canceled'' then (CANCELLED, None)
      else if k = ''rejected'' then (REJECTED, None)
      else (0, Some (Errorf_s ''invalid order status: '' s)))"

definition parseSide :: "(rune \<Rightarrow> rune) \<Rightarrow> string \<Rightarrow> OrderSide \<times> error option" where
  "parseSide tbl s =
     (let k = strings_ToLower tbl (strings_TrimSpace s) in
      if k = ''buy'' then (BUY, None)
      else if k = ''sell'' then (SELL, None)
      else (0, Some (Errorf_s ''invalid order side: '' s)))"

definition parseType :: "(rune \<Rightarrow> rune) \<Rightarrow> string \<Rightarrow> OrderType \<times> error option" where
  "parseType tbl s =
     (let k = strings_ToLower tbl (strings_TrimSpace s) in
      if k = ''market'' then (MARKET, None)
      else if k = ''limit'' then (LIMIT, None)
      else (0, Some (Errorf_s ''invalid order type: '' s)))"

text \<open>Quantities and prices are \<open>int64\<close>: 64-bit words read as signed.\<close>

definition validateQuantity :: "64 word \<Rightarrow> bool" where
  "validateQuantity q = (sint q > 0)"

definition validatePrice :: "OrderType \<Rightarrow> 64 word \<Rightarrow> bool" where
  "validatePrice t p = (if t = LIMIT \<and> sint p \<le> 0 then False else True)"

text \<open>
  What \<open>NewOrder\<close> reads from outside the program: the identifier \<open>uuid.New()\<close> draws
  and the two readings of the clock. (\<open>uuid.New\<close> panics when the system's random
  source fails; that failure of the platform is outside this model.)
\<close>

record Env =
  uuid_New :: UUID
  time_Now1 :: Time
  time_Now2 :: Time

text \<open>
  \<open>NewOrder\<close> returns a Go pair of a pointer to the new order (\<open>None\<close> for \<open>nil\<close>)
  and an error (\<open>None\<close> for \<open>nil\<close>).
\<close>

definition NewOrder ::
  "(rune \<Rightarrow> rune) \<Rightarrow> Env \<Rightarrow> string \<Rightarrow> string \<Rightarrow> string \<Rightarrow> string \<Rightarrow> 64 word \<Rightarrow> 64 word
     \<Rightarrow> Order option \<times> error option" where
  "NewOrder tbl env symbol orderType orderSide orderStatus qty price =
     (case parseStatus tbl orderStatus of
        (status, Some err) \<Rightarrow> (None, Some (Errorf_w ''failed to create order: '' err))
      | (status, None) \<Rightarrow>
     (case parseSide tbl orderSide of
        (side, Some err) \<Rightarrow> (None, Some (Errorf_w ''failed to create order: '' err))
      | (side, None) \<Rightarrow>
     (case parseType tbl orderType of
        (otype, Some err) \<Rightarrow> (None, Some (Errorf_w ''failed to create order: '' err))
      | (otype, None) \<Rightarrow>
        if \<not> validateQuantity qty then
          (None, Some (Errorf_w ''failed to create order: ''
                         (errors_New ''qunatity must be greater than 0'')))
        else if \<not> validatePrice otype price then
          (None, Some (Errorf_w ''failed to create order: ''
                         (errors_New ''price must be greater than 0'')))
        else
          (Some \<lparr> OrderID = uuid_New env, Symbol = symbol, Side = side, Type = otype,
                   Quantity = qty, RemainingQuantity = qty, Price = price,
                   Status = status, CreateAt = time_Now1 env, UpdatedAt = time_Now2 env \<rparr>,
           None))))"

text \<open>
  Data for the examples below. \<open>sampleTable\<close> is a case table with the two runes above
  ASCII whose lower case is an ASCII letter (the Kelvin sign U+212A and the dotted capital
  I, U+0130) and every other rune unchanged; \<open>sampleEnv\<close> is one draw of the identifier
  and the clock.
\<close>

definition sampleTable :: "rune \<Rightarrow> rune" where
  "sampleTable r = (if r = 0x212A then 0x6B else if r = 0x130 then 0x69 else r)"

definition sampleEnv :: Env where
  "sampleEnv = \<lparr> uuid_New = 0x1B4E28BA2FA111D2883F0016D3CCA427, time_Now1 = 1700000000000000000,
                 time_Now2 = 1700000000000000150 \<rparr>"

text \<open>
  The five checks of \<open>NewOrder\<close> together: the three strings parse, the quantity and
  the price pass their validators.
\<close>

definition validInput ::
  "(rune \<Rightarrow> rune) \<Rightarrow> string \<Rightarrow> string \<Rightarrow> string \<Rightarrow> 64 word \<Rightarrow> 64 word \<Rightarrow> bool" where
  "validInput tbl orderType orderSide orderStatus qty price =
     (snd (parseStatus tbl orderStatus) = None \<and> snd (parseSide tbl orderSide) = None
      \<and> snd (parseType tbl orderType) = None \<and> validateQuantity qty
      \<and> validatePrice (fst (parseType tbl orderType)) price)"




section \<open>What the constructor returns\<close>

lemma NewOrder_valid:
  "validInput tbl ot os ost qty price \<Longrightarrow>
   NewOrder tbl env symbol ot os ost qty price =
     (Some \<lparr> OrderID = uuid_New env, Symbol = symbol, Side = fst (parseSide tbl os),
              Type = fst (parseType tbl ot), Quantity = qty, RemainingQuantity = qty,
              Price = price, Status = fst (parseStatus tbl ost),
              CreateAt = time_Now1 env, UpdatedAt = time_Now2 env \<rparr>, None)"
  by (auto simp: NewOrder_def validInput_def split: prod.splits option.splits)

lemma NewOrder_invalid:
  "\<not> validInput tbl ot os ost qty price \<Longrightarrow>
   \<exists>e. NewOrder tbl env symbol ot os ost qty price = (None, Some e)"
  by (auto simp: NewOrder_def validInput_def split: prod.splits option.splits)

lemma NewOrder_Some:
  assumes "NewOrder tbl env symbol ot os ost qty price = (Some ord, err)"
  shows "validInput tbl ot os ost qty price"
    and "err = None"
    and "ord = \<lparr> OrderID = uuid_New env, Symbol = symbol, Side = fst (parseSide tbl os),
              Type = fst (parseType tbl ot), Quantity = qty, RemainingQuantity = qty,
              Price = price, Status = fst (parseStatus tbl ost),
              CreateAt = time_Now1 env, UpdatedAt = time_Now2 env \<rparr>"
proof -
  show v: "validInput tbl ot os ost qty price"
    using assms NewOrder_invalid [of tbl ot os ost qty price env symbol] by auto
  from NewOrder_valid [OF v, of env symbol] assms
  show "err = None" and "ord = \<lparr> OrderID = uuid_New env, Symbol = symbol, Side = fst (parseSide tbl os),
              Type = fst (parseType tbl ot), Quantity = qty, RemainingQuantity = qty,
              Price = price, Status = fst (parseStatus tbl ost),
              CreateAt = time_Now1 env, UpdatedAt = time_Now2 env \<rparr>"
    by simp_all
qed

lemma parseSide_ok: "snd (parseSide tbl s) = None \<Longrightarrow> fst (parseSide tbl s) = BUY \<or> fst (parseSide tbl s) = SELL"
  by (auto simp: parseSide_def Let_def split: if_splits)

lemma parseType_ok: "snd (parseType tbl s) = None \<Longrightarrow> fst (parseType tbl s) = MARKET \<or> fst (parseType tbl s) = LIMIT"
  by (auto simp: parseType_def Let_def split: if_splits)

lemma ToLower_TrimSpace_cancelled:
  "strings_ToLower tbl (strings_TrimSpace ''cancelled'') = ''cancelled''"
  by code_simp

text \<open>The call in \<open>main\<close>: a limit order with price 0 is refused.\<close>

lemma main_call:
  "NewOrder tbl env ''AAPL'' ''LIMIT'' ''BUY'' ''pending'' 10 0 =
     (None, Some (Error ''failed to create order: price must be greater than 0''
                    (Some (Error ''price must be greater than 0'' None))))"
  by code_simp

section \<open>UTF-8: decoding and encoding are inverse\<close>



































section \<open>Mapping and trimming\<close>







































section \<open>The claims of the specification\<close>

text \<open>
  C1, as stated, fails: the status is an argument of \<open>NewOrder\<close>, so the call with the
  status string "filled" succeeds and returns an order whose status is FILLED, not PENDING.
\<close>

theorem C1_status_counterexample:
  "NewOrder sampleTable sampleEnv ''AAPL'' ''LIMIT'' ''BUY'' ''filled'' 10 5 =
     (Some \<lparr> OrderID = uuid_New sampleEnv, Symbol = ''AAPL'', Side = BUY, Type = LIMIT,
              Quantity = 10, RemainingQuantity = 10, Price = 5, Status = FILLED,
              CreateAt = time_Now1 sampleEnv, UpdatedAt = time_Now2 sampleEnv \<rparr>, None)
   \<and> FILLED \<noteq> PENDING"
  by (intro conjI) code_simp+

text \<open>
  C1, amended: when \<open>NewOrder\<close> succeeds the error is nil and the status of the returned
  order is the value its \<open>orderStatus\<close> argument parses to, which is PENDING exactly
  when that argument parses to PENDING; when one of the checks fails, \<open>NewOrder\<close> returns
  an error and no order.
\<close>

theorem C1_status_as_parsed:
  "(NewOrder tbl env symbol orderType orderSide orderStatus qty price = (Some ord, err) \<longrightarrow>
      err = None \<and> parseStatus tbl orderStatus = (Status ord, None)
      \<and> (Status ord = PENDING \<longleftrightarrow> parseStatus tbl orderStatus = (PENDING, None)))
   \<and> (snd (parseStatus tbl orderStatus) \<noteq> None \<or> snd (parseSide tbl orderSide) \<noteq> None
        \<or> snd (parseType tbl orderType) \<noteq> None \<or> \<not> validateQuantity qty
        \<or> \<not> validatePrice (fst (parseType tbl orderType)) price \<longrightarrow>
      (\<exists>e. NewOrder tbl env symbol orderType orderSide orderStatus qty price = (None, Some e)))"
proof (rule conjI; rule impI)
  assume a: "NewOrder tbl env symbol orderType orderSide orderStatus qty price = (Some ord, err)"
  from NewOrder_Some [OF a]
  show "err = None \<and> parseStatus tbl orderStatus = (Status ord, None)
      \<and> (Status ord = PENDING \<longleftrightarrow> parseStatus tbl orderStatus = (PENDING, None))"
    by (auto simp: validInput_def prod_eq_iff)
next
  assume "snd (parseStatus tbl orderStatus) \<noteq> None \<or> snd (parseSide tbl orderSide) \<noteq> None
        \<or> snd (parseType tbl orderType) \<noteq> None \<or> \<not> validateQuantity qty
        \<or> \<not> validatePrice (fst (parseType tbl orderType)) price"
  then have "\<not> validInput tbl orderType orderSide orderStatus qty price"
    by (auto simp: validInput_def)
  then show "\<exists>e. NewOrder tbl env symbol orderType orderSide orderStatus qty price = (None, Some e)"
    by (rule NewOrder_invalid)
qed


text \<open>The amended C1 at a string that parses to PENDING and at one that does not parse.\<close>

theorem C1_status_as_parsed_witness:
  "NewOrder sampleTable sampleEnv ''AAPL'' ''limit'' ''sell'' '' Pending '' 10 5 =
     (Some \<lparr> OrderID = uuid_New sampleEnv, Symbol = ''AAPL'', Side = SELL, Type = LIMIT,
              Quantity = 10, RemainingQuantity = 10, Price = 5, Status = PENDING,
              CreateAt = time_Now1 sampleEnv, UpdatedAt = time_Now2 sampleEnv \<rparr>, None)
   \<and> parseStatus sampleTable '' Pending '' = (PENDING, None)
   \<and> snd (parseStatus sampleTable ''new'') \<noteq> None
   \<and> (\<exists>e. NewOrder sampleTable sampleEnv ''AAPL'' ''limit'' ''sell'' ''new'' 10 5 = (None, Some e))"
proof -
  let ?ord = "\<lparr> OrderID = uuid_New sampleEnv, Symbol = ''AAPL'', Side = SELL, Type = LIMIT,
              Quantity = 10, RemainingQuantity = 10, Price = 5, Status = PENDING,
              CreateAt = time_Now1 sampleEnv, UpdatedAt = time_Now2 sampleEnv \<rparr>"
  have ok: "NewOrder sampleTable sampleEnv ''AAPL'' ''limit'' ''sell'' '' Pending '' 10 5
              = (Some ?ord, None)"
    by code_simp
  have bad: "snd (parseStatus sampleTable ''new'') \<noteq> None"
    by code_simp
  from C1_status_as_parsed [of sampleTable sampleEnv "''AAPL''" "''limit''" "''sell''"
      "'' Pending ''" 10 5 ?ord None] ok
  have "parseStatus sampleTable '' Pending '' = (PENDING, None)" by simp
  moreover from C1_status_as_parsed [of sampleTable sampleEnv "''AAPL''" "''limit''" "''sell''"
      "''new''" 10 5] bad
  have "\<exists>e. NewOrder sampleTable sampleEnv ''AAPL'' ''limit'' ''sell'' ''new'' 10 5 = (None, Some e)"
    by blast
  ultimately show ?thesis using ok bad by blast
qed

text \<open>
  C2, as stated, fails: \<open>NewOrder\<close> has no check of the symbol, and the call with the
  empty symbol succeeds and returns an order whose symbol is empty.
\<close>

theorem C2_empty_symbol_counterexample:
  "NewOrder sampleTable sampleEnv [] ''LIMIT'' ''BUY'' ''pending'' 10 5 =
     (Some \<lparr> OrderID = uuid_New sampleEnv, Symbol = [], Side = BUY, Type = LIMIT,
              Quantity = 10, RemainingQuantity = 10, Price = 5, Status = PENDING,
              CreateAt = time_Now1 sampleEnv, UpdatedAt = time_Now2 sampleEnv \<rparr>, None)"
  by code_simp

text \<open>
  C2, amended: the symbol of a returned order is the symbol that was passed, whatever it
  is, and whether \<open>NewOrder\<close> returns an order does not depend on the symbol.
\<close>

theorem C2_symbol_not_validated:
  "(NewOrder tbl env symbol orderType orderSide orderStatus qty price = (Some ord, err) \<longrightarrow>
      Symbol ord = symbol)
   \<and> (fst (NewOrder tbl env symbol orderType orderSide orderStatus qty price) = None \<longleftrightarrow>
        fst (NewOrder tbl env symbol' orderType orderSide orderStatus qty price) = None)"
proof (rule conjI)
  show "NewOrder tbl env symbol orderType orderSide orderStatus qty price = (Some ord, err) \<longrightarrow>
      Symbol ord = symbol"
    using NewOrder_Some(3) [of tbl env symbol orderType orderSide orderStatus qty price ord err]
    by auto
next
  show "fst (NewOrder tbl env symbol orderType orderSide orderStatus qty price) = None \<longleftrightarrow>
        fst (NewOrder tbl env symbol' orderType orderSide orderStatus qty price) = None"
  proof (cases "validInput tbl orderType orderSide orderStatus qty price")
    case True
    then show ?thesis by (simp add: NewOrder_valid)
  next
    case False
    from NewOrder_invalid [OF False, of env symbol] NewOrder_invalid [OF False, of env symbol']
    show ?thesis by auto
  qed
qed

text \<open>The amended C2 at the empty symbol.\<close>

theorem C2_symbol_not_validated_witness:
  "Symbol \<lparr> OrderID = uuid_New sampleEnv, Symbol = [], Side = SELL, Type = MARKET,
            Quantity = 3, RemainingQuantity = 3, Price = 0, Status = PENDING,
            CreateAt = time_Now1 sampleEnv, UpdatedAt = time_Now2 sampleEnv \<rparr> = []
   \<and> NewOrder sampleTable sampleEnv [] ''market'' ''sell'' ''pending'' 3 0 =
     (Some \<lparr> OrderID = uuid_New sampleEnv, Symbol = [], Side = SELL, Type = MARKET,
              Quantity = 3, RemainingQuantity = 3, Price = 0, Status = PENDING,
              CreateAt = time_Now1 sampleEnv, UpdatedAt = time_Now2 sampleEnv \<rparr>, None)"
proof -
  let ?ord = "\<lparr> OrderID = uuid_New sampleEnv, Symbol = [], Side = SELL, Type = MARKET,
            Quantity = 3, RemainingQuantity = 3, Price = 0, Status = PENDING,
            CreateAt = time_Now1 sampleEnv, UpdatedAt = time_Now2 sampleEnv \<rparr>"
  have ok: "NewOrder sampleTable sampleEnv [] ''market'' ''sell'' ''pending'' 3 0 = (Some ?ord, None)"
    by code_simp
  from C2_symbol_not_validated [of sampleTable sampleEnv "[]" "''market''" "''sell''"
      "''pending''" 3 0 ?ord None] ok
  have "Symbol ?ord = []" by blast
  with ok show ?thesis by blast
qed

text \<open>
  C3: a quantity that is zero or negative makes \<open>NewOrder\<close> return an error and no
  order, and the quantity of every returned order is positive.
\<close>

theorem C3_quantity_positive:
  "(sint qty \<le> 0 \<longrightarrow>
      (\<exists>e. NewOrder tbl env symbol orderType orderSide orderStatus qty price = (None, Some e)))
   \<and> (NewOrder tbl env symbol orderType orderSide orderStatus qty price = (Some ord, err) \<longrightarrow>
        0 < sint (Quantity ord))"
proof (rule conjI; rule impI)
  assume "sint qty \<le> 0"
  then have "\<not> validInput tbl orderType orderSide orderStatus qty price"
    by (simp add: validInput_def validateQuantity_def)
  then show "\<exists>e. NewOrder tbl env symbol orderType orderSide orderStatus qty price = (None, Some e)"
    by (rule NewOrder_invalid)
next
  assume a: "NewOrder tbl env symbol orderType orderSide orderStatus qty price = (Some ord, err)"
  from NewOrder_Some(1,3) [OF a] show "0 < sint (Quantity ord)"
    by (simp add: validInput_def validateQuantity_def)
qed

text \<open>C3 at the quantities -4 and 1.\<close>

theorem C3_quantity_positive_witness:
  "sint (- 4 :: 64 word) \<le> 0
   \<and> (\<exists>e. NewOrder sampleTable sampleEnv ''AAPL'' ''limit'' ''buy'' ''pending'' (- 4) 5 = (None, Some e))
   \<and> NewOrder sampleTable sampleEnv ''AAPL'' ''limit'' ''buy'' ''pending'' 1 5 =
     (Some \<lparr> OrderID = uuid_New sampleEnv, Symbol = ''AAPL'', Side = BUY, Type = LIMIT,
              Quantity = 1, RemainingQuantity = 1, Price = 5, Status = PENDING,
              CreateAt = time_Now1 sampleEnv, UpdatedAt = time_Now2 sampleEnv \<rparr>, None)
   \<and> 0 < sint (Quantity \<lparr> OrderID = uuid_New sampleEnv, Symbol = ''AAPL'', Side = BUY, Type = LIMIT,
              Quantity = 1, RemainingQuantity = 1, Price = 5, Status = PENDING,
              CreateAt = time_Now1 sampleEnv, UpdatedAt = time_Now2 sampleEnv \<rparr>)"
proof -
  let ?ord = "\<lparr> OrderID = uuid_New sampleEnv, Symbol = ''AAPL'', Side = BUY, Type = LIMIT,
              Quantity = 1, RemainingQuantity = 1, Price = 5, Status = PENDING,
              CreateAt = time_Now1 sampleEnv, UpdatedAt = time_Now2 sampleEnv \<rparr>"
  have neg: "sint (- 4 :: 64 word) \<le> 0" by simp
  have ok: "NewOrder sampleTable sampleEnv ''AAPL'' ''limit'' ''buy'' ''pending'' 1 5 = (Some ?ord, None)"
    by code_simp
  from C3_quantity_positive [of "- 4" sampleTable sampleEnv "''AAPL''" "''limit''" "''buy''"
      "''pending''" 5] neg
  have "\<exists>e. NewOrder sampleTable sampleEnv ''AAPL'' ''limit'' ''buy'' ''pending'' (- 4) 5 = (None, Some e)"
    by blast
  moreover from C3_quantity_positive [of 1 sampleTable sampleEnv "''AAPL''" "''limit''" "''buy''"
      "''pending''" 5 ?ord None] ok
  have "0 < sint (Quantity ?ord)" by blast
  ultimately show ?thesis using neg ok by blast
qed

text \<open>
  C4: when the order type parses to LIMIT and the price is zero or negative, \<open>NewOrder\<close>
  returns an error and no order; when the order type parses to MARKET, the status and
  the side parse and the quantity is positive, \<open>NewOrder\<close> succeeds for every price.
\<close>

theorem C4_limit_price_market_any_price:
  "(parseType tbl orderType = (LIMIT, None) \<and> sint price \<le> 0 \<longrightarrow>
      (\<exists>e. NewOrder tbl env symbol orderType orderSide orderStatus qty price = (None, Some e)))
   \<and> (parseType tbl orderType' = (MARKET, None) \<and> snd (parseStatus tbl orderStatus) = None
        \<and> snd (parseSide tbl orderSide) = None \<and> 0 < sint qty \<longrightarrow>
      (\<exists>ord. NewOrder tbl env symbol orderType' orderSide orderStatus qty price = (Some ord, None)))"
proof (rule conjI; rule impI)
  assume "parseType tbl orderType = (LIMIT, None) \<and> sint price \<le> 0"
  then have "\<not> validInput tbl orderType orderSide orderStatus qty price"
    by (simp add: validInput_def validatePrice_def)
  then show "\<exists>e. NewOrder tbl env symbol orderType orderSide orderStatus qty price = (None, Some e)"
    by (rule NewOrder_invalid)
next
  assume "parseType tbl orderType' = (MARKET, None) \<and> snd (parseStatus tbl orderStatus) = None
        \<and> snd (parseSide tbl orderSide) = None \<and> 0 < sint qty"
  then have "validInput tbl orderType' orderSide orderStatus qty price"
    by (simp add: validInput_def validatePrice_def validateQuantity_def MARKET_def LIMIT_def)
  from NewOrder_valid [OF this]
  show "\<exists>ord. NewOrder tbl env symbol orderType' orderSide orderStatus qty price = (Some ord, None)"
    by blast
qed

text \<open>C4 at a limit order with price 0 and a market order with price -7.\<close>

theorem C4_limit_price_market_any_price_witness:
  "parseType sampleTable ''Limit'' = (LIMIT, None) \<and> sint (0 :: 64 word) \<le> 0
   \<and> (\<exists>e. NewOrder sampleTable sampleEnv ''AAPL'' ''Limit'' ''buy'' ''pending'' 10 0 = (None, Some e))
   \<and> parseType sampleTable ''Market'' = (MARKET, None)
   \<and> snd (parseStatus sampleTable ''pending'') = None \<and> snd (parseSide sampleTable ''buy'') = None
   \<and> 0 < sint (10 :: 64 word)
   \<and> (\<exists>ord. NewOrder sampleTable sampleEnv ''AAPL'' ''Market'' ''buy'' ''pending'' 10 (- 7) = (Some ord, None))"
proof -
  have l: "parseType sampleTable ''Limit'' = (LIMIT, None) \<and> sint (0 :: 64 word) \<le> 0"
    by (rule conjI) (code_simp, simp)
  have m: "parseType sampleTable ''Market'' = (MARKET, None)
      \<and> snd (parseStatus sampleTable ''pending'') = None \<and> snd (parseSide sampleTable ''buy'') = None
      \<and> 0 < sint (10 :: 64 word)"
    by (intro conjI) (code_simp, code_simp, code_simp, simp)
  from C4_limit_price_market_any_price [of sampleTable "''Limit''" 0 sampleEnv "''AAPL''" "''buy''"
      "''pending''" 10] l
  have "\<exists>e. NewOrder sampleTable sampleEnv ''AAPL'' ''Limit'' ''buy'' ''pending'' 10 0 = (None, Some e)"
    by blast
  moreover from C4_limit_price_market_any_price [where tbl = sampleTable and orderType' = "''Market''"
      and orderStatus = "''pending''" and orderSide = "''buy''" and qty = 10 and price = "- 7"
      and env = sampleEnv and symbol = "''AAPL''"] m
  have "\<exists>ord. NewOrder sampleTable sampleEnv ''AAPL'' ''Market'' ''buy'' ''pending'' 10 (- 7) = (Some ord, None)"
    by blast
  ultimately show ?thesis using l m by blast
qed

text \<open>
  C5: when the side string parses to neither BUY nor SELL, or the type string parses to
  neither MARKET nor LIMIT, \<open>NewOrder\<close> returns an error and no order; the side of every
  returned order is BUY or SELL and its type is MARKET or LIMIT, and they are the values
  the two strings parse to.
\<close>

theorem C5_side_and_type:
  "((parseSide tbl orderSide \<noteq> (BUY, None) \<and> parseSide tbl orderSide \<noteq> (SELL, None))
    \<or> (parseType tbl orderType \<noteq> (MARKET, None) \<and> parseType tbl orderType \<noteq> (LIMIT, None)) \<longrightarrow>
      (\<exists>e. NewOrder tbl env symbol orderType orderSide orderStatus qty price = (None, Some e)))
   \<and> (NewOrder tbl env symbol orderType orderSide orderStatus qty price = (Some ord, err) \<longrightarrow>
        (Side ord = BUY \<or> Side ord = SELL) \<and> (Type ord = MARKET \<or> Type ord = LIMIT)
        \<and> parseSide tbl orderSide = (Side ord, None) \<and> parseType tbl orderType = (Type ord, None))"
proof (rule conjI; rule impI)
  assume a: "(parseSide tbl orderSide \<noteq> (BUY, None) \<and> parseSide tbl orderSide \<noteq> (SELL, None))
    \<or> (parseType tbl orderType \<noteq> (MARKET, None) \<and> parseType tbl orderType \<noteq> (LIMIT, None))"
  have "\<not> validInput tbl orderType orderSide orderStatus qty price"
  proof
    assume v: "validInput tbl orderType orderSide orderStatus qty price"
    then have "snd (parseSide tbl orderSide) = None" and "snd (parseType tbl orderType) = None"
      by (simp_all add: validInput_def)
    from parseSide_ok [OF this(1)] parseType_ok [OF this(2)] this a show False
      by (auto simp: prod_eq_iff)
  qed
  then show "\<exists>e. NewOrder tbl env symbol orderType orderSide orderStatus qty price = (None, Some e)"
    by (rule NewOrder_invalid)
next
  assume a: "NewOrder tbl env symbol orderType orderSide orderStatus qty price = (Some ord, err)"
  from NewOrder_Some(1) [OF a]
  have s: "snd (parseSide tbl orderSide) = None" and t: "snd (parseType tbl orderType) = None"
    by (simp_all add: validInput_def)
  from NewOrder_Some(3) [OF a]
  have "Side ord = fst (parseSide tbl orderSide)" and "Type ord = fst (parseType tbl orderType)"
    by simp_all
  with parseSide_ok [OF s] parseType_ok [OF t] s t
  show "(Side ord = BUY \<or> Side ord = SELL) \<and> (Type ord = MARKET \<or> Type ord = LIMIT)
        \<and> parseSide tbl orderSide = (Side ord, None) \<and> parseType tbl orderType = (Type ord, None)"
    by (simp add: prod_eq_iff)
qed

text \<open>C5 at a side that does not parse, a type that does not parse, and a valid order.\<close>

theorem C5_side_and_type_witness:
  "parseSide sampleTable ''hold'' \<noteq> (BUY, None) \<and> parseSide sampleTable ''hold'' \<noteq> (SELL, None)
   \<and> (\<exists>e. NewOrder sampleTable sampleEnv ''AAPL'' ''limit'' ''hold'' ''pending'' 10 5 = (None, Some e))
   \<and> parseType sampleTable ''stop'' \<noteq> (MARKET, None) \<and> parseType sampleTable ''stop'' \<noteq> (LIMIT, None)
   \<and> (\<exists>e. NewOrder sampleTable sampleEnv ''AAPL'' ''stop'' ''sell'' ''pending'' 10 5 = (None, Some e))
   \<and> NewOrder sampleTable sampleEnv ''AAPL'' ''limit'' ''sell'' ''pending'' 10 5 =
     (Some \<lparr> OrderID = uuid_New sampleEnv, Symbol = ''AAPL'', Side = SELL, Type = LIMIT,
              Quantity = 10, RemainingQuantity = 10, Price = 5, Status = PENDING,
              CreateAt = time_Now1 sampleEnv, UpdatedAt = time_Now2 sampleEnv \<rparr>, None)
   \<and> parseSide sampleTable ''sell'' = (SELL, None) \<and> parseType sampleTable ''limit'' = (LIMIT, None)"
proof -
  let ?ord = "\<lparr> OrderID = uuid_New sampleEnv, Symbol = ''AAPL'', Side = SELL, Type = LIMIT,
              Quantity = 10, RemainingQuantity = 10, Price = 5, Status = PENDING,
              CreateAt = time_Now1 sampleEnv, UpdatedAt = time_Now2 sampleEnv \<rparr>"
  have s: "parseSide sampleTable ''hold'' \<noteq> (BUY, None) \<and> parseSide sampleTable ''hold'' \<noteq> (SELL, None)"
    by (rule conjI) code_simp+
  have t: "parseType sampleTable ''stop'' \<noteq> (MARKET, None) \<and> parseType sampleTable ''stop'' \<noteq> (LIMIT, None)"
    by (rule conjI) code_simp+
  have ok: "NewOrder sampleTable sampleEnv ''AAPL'' ''limit'' ''sell'' ''pending'' 10 5 = (Some ?ord, None)"
    by code_simp
  from C5_side_and_type [of sampleTable "''hold''" "''limit''" sampleEnv "''AAPL''" "''pending''" 10 5] s
  have 1: "\<exists>e. NewOrder sampleTable sampleEnv ''AAPL'' ''limit'' ''hold'' ''pending'' 10 5 = (None, Some e)"
    by blast
  from C5_side_and_type [of sampleTable "''sell''" "''stop''" sampleEnv "''AAPL''" "''pending''" 10 5] t
  have 2: "\<exists>e. NewOrder sampleTable sampleEnv ''AAPL'' ''stop'' ''sell'' ''pending'' 10 5 = (None, Some e)"
    by blast
  from C5_side_and_type [of sampleTable "''sell''" "''limit''" sampleEnv "''AAPL''" "''pending''" 10 5
      ?ord None] ok
  have 3: "parseSide sampleTable ''sell'' = (SELL, None) \<and> parseType sampleTable ''limit'' = (LIMIT, None)"
    by simp
  from s t ok 1 2 3 show ?thesis by blast
qed

text \<open>
  C6: in every order \<open>NewOrder\<close> returns, the remaining quantity equals the quantity and
  both equal the requested quantity.
\<close>

theorem C6_remaining_is_quantity:
  "NewOrder tbl env symbol orderType orderSide orderStatus qty price = (Some ord, err) \<Longrightarrow>
     RemainingQuantity ord = Quantity ord \<and> Quantity ord = qty"
  using NewOrder_Some(3) [of tbl env symbol orderType orderSide orderStatus qty price ord err]
  by simp

text \<open>C6 at a market order for 250.\<close>

theorem C6_remaining_is_quantity_witness:
  "NewOrder sampleTable sampleEnv ''MSFT'' ''market'' ''buy'' ''pending'' 250 0 =
     (Some \<lparr> OrderID = uuid_New sampleEnv, Symbol = ''MSFT'', Side = BUY, Type = MARKET,
              Quantity = 250, RemainingQuantity = 250, Price = 0, Status = PENDING,
              CreateAt = time_Now1 sampleEnv, UpdatedAt = time_Now2 sampleEnv \<rparr>, None)
   \<and> RemainingQuantity \<lparr> OrderID = uuid_New sampleEnv, Symbol = ''MSFT'', Side = BUY, Type = MARKET,
              Quantity = 250, RemainingQuantity = 250, Price = 0, Status = PENDING,
              CreateAt = time_Now1 sampleEnv, UpdatedAt = time_Now2 sampleEnv \<rparr> = 250"
proof -
  let ?ord = "\<lparr> OrderID = uuid_New sampleEnv, Symbol = ''MSFT'', Side = BUY, Type = MARKET,
              Quantity = 250, RemainingQuantity = 250, Price = 0, Status = PENDING,
              CreateAt = time_Now1 sampleEnv, UpdatedAt = time_Now2 sampleEnv \<rparr>"
  have ok: "NewOrder sampleTable sampleEnv ''MSFT'' ''market'' ''buy'' ''pending'' 250 0 = (Some ?ord, None)"
    by code_simp
  from C6_remaining_is_quantity [OF ok] have "RemainingQuantity ?ord = 250" by simp
  with ok show ?thesis by blast
qed

text \<open>
  C7, as stated, fails: the call with the status string "FILLED" and quantity 10 returns an
  order whose status is FILLED and whose remaining quantity is 10, not 0.
\<close>

theorem C7_filled_counterexample:
  "NewOrder sampleTable sampleEnv ''AAPL'' ''market'' ''sell'' ''FILLED'' 10 0 =
     (Some \<lparr> OrderID = uuid_New sampleEnv, Symbol = ''AAPL'', Side = SELL, Type = MARKET,
              Quantity = 10, RemainingQuantity = 10, Price = 0, Status = FILLED,
              CreateAt = time_Now1 sampleEnv, UpdatedAt = time_Now2 sampleEnv \<rparr>, None)
   \<and> (10 :: 64 word) \<noteq> 0"
  by (rule conjI) (code_simp, simp)

text \<open>
  C7, amended: in every order \<open>NewOrder\<close> returns, the remaining quantity is positive and
  at most the quantity, so it is never 0; the status is FILLED exactly when the
  \<open>orderStatus\<close> argument parses to FILLED, whatever the remaining quantity.
\<close>

theorem C7_remaining_bounds:
  "NewOrder tbl env symbol orderType orderSide orderStatus qty price = (Some ord, err) \<Longrightarrow>
     0 < sint (RemainingQuantity ord)
     \<and> sint (RemainingQuantity ord) \<le> sint (Quantity ord)
     \<and> RemainingQuantity ord \<noteq> 0
     \<and> (Status ord = FILLED \<longleftrightarrow> parseStatus tbl orderStatus = (FILLED, None))"
proof -
  assume a: "NewOrder tbl env symbol orderType orderSide orderStatus qty price = (Some ord, err)"
  from NewOrder_Some(1) [OF a] have q: "0 < sint qty" and s: "snd (parseStatus tbl orderStatus) = None"
    by (simp_all add: validInput_def validateQuantity_def)
  from q have "qty \<noteq> 0" by auto
  with NewOrder_Some(3) [OF a] q s show ?thesis
    by (auto simp: prod_eq_iff)
qed

text \<open>The amended C7 at an order built with the status string "filled".\<close>

theorem C7_remaining_bounds_witness:
  "NewOrder sampleTable sampleEnv ''AAPL'' ''limit'' ''buy'' ''filled'' 8 3 =
     (Some \<lparr> OrderID = uuid_New sampleEnv, Symbol = ''AAPL'', Side = BUY, Type = LIMIT,
              Quantity = 8, RemainingQuantity = 8, Price = 3, Status = FILLED,
              CreateAt = time_Now1 sampleEnv, UpdatedAt = time_Now2 sampleEnv \<rparr>, None)
   \<and> parseStatus sampleTable ''filled'' = (FILLED, None)"
proof -
  let ?ord = "\<lparr> OrderID = uuid_New sampleEnv, Symbol = ''AAPL'', Side = BUY, Type = LIMIT,
              Quantity = 8, RemainingQuantity = 8, Price = 3, Status = FILLED,
              CreateAt = time_Now1 sampleEnv, UpdatedAt = time_Now2 sampleEnv \<rparr>"
  have ok: "NewOrder sampleTable sampleEnv ''AAPL'' ''limit'' ''buy'' ''filled'' 8 3 = (Some ?ord, None)"
    by code_simp
  from C7_remaining_bounds [OF ok] have "parseStatus sampleTable ''filled'' = (FILLED, None)"
    by simp
  with ok show ?thesis by blast
qed




text \<open>
  C9: \<open>parseStatus\<close> returns CANCELLED and no error exactly for the strings whose trimmed
  lower-case form is "canceled", with one l; for "cancelled" it returns an error, and
  \<open>NewOrder\<close> with that status string returns an error and no order.
\<close>

theorem C9_canceled_spelling:
  "(parseStatus tbl s = (CANCELLED, None) \<longleftrightarrow>
      strings_ToLower tbl (strings_TrimSpace s) = ''canceled'')
   \<and> parseStatus tbl ''cancelled'' = (0, Some (Errorf_s ''invalid order status: '' ''cancelled''))
   \<and> (\<exists>e. NewOrder tbl env symbol orderType orderSide ''cancelled'' qty price = (None, Some e))"
proof (intro conjI)
  show "parseStatus tbl s = (CANCELLED, None) \<longleftrightarrow>
      strings_ToLower tbl (strings_TrimSpace s) = ''canceled''"
    by (simp add: parseStatus_def Let_def PENDING_def PARTIALLY_FILLED_def FILLED_def
          CANCELLED_def REJECTED_def)
  show bad: "parseStatus tbl ''cancelled'' = (0, Some (Errorf_s ''invalid order status: '' ''cancelled''))"
    unfolding parseStatus_def ToLower_TrimSpace_cancelled Let_def by simp
  then have "\<not> validInput tbl orderType orderSide ''cancelled'' qty price"
    by (simp add: validInput_def)
  then show "\<exists>e. NewOrder tbl env symbol orderType orderSide ''cancelled'' qty price = (None, Some e)"
    by (rule NewOrder_invalid)
qed

text \<open>
  C10: for every input \<open>NewOrder\<close> returns either an order and the nil error or no order
  and an error; the order is nil exactly when the error is not, and exactly when one of
  the five checks fails (a string that does not parse, a quantity or a price that does not
  pass its validator), so a validation failure never yields an order.
\<close>

theorem C10_order_or_error:
  "((\<exists>ord. NewOrder tbl env symbol orderType orderSide orderStatus qty price = (Some ord, None))
    \<or> (\<exists>e. NewOrder tbl env symbol orderType orderSide orderStatus qty price = (None, Some e)))
   \<and> (fst (NewOrder tbl env symbol orderType orderSide orderStatus qty price) = None \<longleftrightarrow>
        snd (NewOrder tbl env symbol orderType orderSide orderStatus qty price) \<noteq> None)
   \<and> ((snd (parseStatus tbl orderStatus) \<noteq> None \<or> snd (parseSide tbl orderSide) \<noteq> None
         \<or> snd (parseType tbl orderType) \<noteq> None \<or> \<not> validateQuantity qty
         \<or> \<not> validatePrice (fst (parseType tbl orderType)) price) \<longleftrightarrow>
        fst (NewOrder tbl env symbol orderType orderSide orderStatus qty price) = None)"
proof (cases "validInput tbl orderType orderSide orderStatus qty price")
  case True
  from NewOrder_valid [OF True, of env symbol] True show ?thesis
    by (simp add: validInput_def)
next
  case False
  from NewOrder_invalid [OF False, of env symbol] False show ?thesis
    by (auto simp: validInput_def)
qed

text \<open>
  C10 at a quantity of 0, at a side that does not parse, and at a valid order.
\<close>

theorem C10_order_or_error_witness:
  "\<not> validateQuantity (0 :: 64 word)
   \<and> NewOrder sampleTable sampleEnv ''AAPL'' ''limit'' ''buy'' ''pending'' 0 5 =
       (None, Some (Error ''failed to create order: qunatity must be greater than 0''
                      (Some (Error ''qunatity must be greater than 0'' None))))
   \<and> snd (parseSide sampleTable ''hold'') \<noteq> None
   \<and> fst (NewOrder sampleTable sampleEnv ''AAPL'' ''limit'' ''hold'' ''pending'' 10 5) = None
   \<and> snd (NewOrder sampleTable sampleEnv ''AAPL'' ''limit'' ''hold'' ''pending'' 10 5) \<noteq> None
   \<and> fst (NewOrder sampleTable sampleEnv ''AAPL'' ''limit'' ''buy'' ''pending'' 10 5) \<noteq> None
   \<and> snd (NewOrder sampleTable sampleEnv ''AAPL'' ''limit'' ''buy'' ''pending'' 10 5) = None"
proof -
  have q: "\<not> validateQuantity (0 :: 64 word)" by (simp add: validateQuantity_def)
  have e: "NewOrder sampleTable sampleEnv ''AAPL'' ''limit'' ''buy'' ''pending'' 0 5 =
       (None, Some (Error ''failed to create order: qunatity must be greater than 0''
                      (Some (Error ''qunatity must be greater than 0'' None))))"
    by code_simp
  have h: "snd (parseSide sampleTable ''hold'') \<noteq> None" by code_simp
  from C10_order_or_error [of sampleTable sampleEnv "''AAPL''" "''limit''" "''hold''"
      "''pending''" 10 5] h
  have 1: "fst (NewOrder sampleTable sampleEnv ''AAPL'' ''limit'' ''hold'' ''pending'' 10 5) = None"
    and 2: "snd (NewOrder sampleTable sampleEnv ''AAPL'' ''limit'' ''hold'' ''pending'' 10 5) \<noteq> None"
    by auto
  have v: "snd (parseStatus sampleTable ''pending'') = None" "snd (parseSide sampleTable ''buy'') = None"
    "snd (parseType sampleTable ''limit'') = None" "validateQuantity (10 :: 64 word)"
    "validatePrice (fst (parseType sampleTable ''limit'')) (5 :: 64 word)"
    by code_simp+
  from C10_order_or_error [of sampleTable sampleEnv "''AAPL''" "''limit''" "''buy''"
      "''pending''" 10 5] v
  have 3: "fst (NewOrder sampleTable sampleEnv ''AAPL'' ''limit'' ''buy'' ''pending'' 10 5) \<noteq> None"
    and 4: "snd (NewOrder sampleTable sampleEnv ''AAPL'' ''limit'' ''buy'' ''pending'' 10 5) = None"
    by auto
  from q e h 1 2 3 4 show ?thesis by blast
qed

end
